theory Spec2Isabelle
  imports Complex_Main "HOL-Library.Word"
begin

section \<open>Token-bucket rate limiter (rate-limiter-cpp/server.cc)\<close>

text \<open>
  A shallow embedding of \<^verbatim>\<open>TokenBucket\<close> and \<^verbatim>\<open>RateLimiterServiceImpl\<close>.
  Every member function becomes a HOL function that takes the object state and returns
  the results together with the new state. Each call of
  \<^verbatim>\<open>std::chrono::steady_clock::now()\<close> becomes an explicit argument holding the value
  the clock returned, in the order in which the source reads the clock.
  The per-object mutexes serialise the calls; the embedding describes one call at a time.
\<close>

subsection \<open>The C++ type double\<close>

text \<open>
  A \<^verbatim>\<open>double\<close> is a finite number, one of the two infinities, or NaN. The comparison
  and arithmetic operators below follow IEEE 754 on infinities and NaN (every comparison
  with NaN is false, \<open>inf - inf\<close> and \<open>0 * inf\<close> are NaN). On finite operands the
  arithmetic is exact: rounding, overflow to infinity and the sign of zero are not
  modelled, so the embedding does not decide a statement that depends on how a finite
  result is rounded.
\<close>

datatype double = Fin real | PInf | NInf | NaN

fun d_lt :: "double \<Rightarrow> double \<Rightarrow> bool" where
  "d_lt (Fin x) (Fin y) = (x < y)"
| "d_lt (Fin x) PInf = True"
| "d_lt NInf (Fin y) = True"
| "d_lt NInf PInf = True"
| "d_lt _ _ = False"

fun d_le :: "double \<Rightarrow> double \<Rightarrow> bool" where
  "d_le (Fin x) (Fin y) = (x \<le> y)"
| "d_le (Fin x) PInf = True"
| "d_le NInf (Fin y) = True"
| "d_le NInf NInf = True"
| "d_le NInf PInf = True"
| "d_le PInf PInf = True"
| "d_le _ _ = False"

definition d_gt :: "double \<Rightarrow> double \<Rightarrow> bool" where
  "d_gt a b = d_lt b a"

definition d_ge :: "double \<Rightarrow> double \<Rightarrow> bool" where
  "d_ge a b = d_le b a"

fun d_neg :: "double \<Rightarrow> double" where
  "d_neg (Fin x) = Fin (- x)"
| "d_neg PInf = NInf"
| "d_neg NInf = PInf"
| "d_neg NaN = NaN"

fun d_add :: "double \<Rightarrow> double \<Rightarrow> double" where
  "d_add NaN _ = NaN"
| "d_add _ NaN = NaN"
| "d_add (Fin x) (Fin y) = Fin (x + y)"
| "d_add PInf NInf = NaN"
| "d_add NInf PInf = NaN"
| "d_add PInf _ = PInf"
| "d_add _ PInf = PInf"
| "d_add NInf _ = NInf"
| "d_add _ NInf = NInf"

definition d_sub :: "double \<Rightarrow> double \<Rightarrow> double" where
  "d_sub a b = d_add a (d_neg b)"

text \<open>The infinity with the sign of \<open>s\<close>, for a non-zero finite \<open>s\<close>.\<close>

definition signed_inf :: "real \<Rightarrow> double" where
  "signed_inf s = (if 0 < s then PInf else NInf)"

fun d_mul :: "double \<Rightarrow> double \<Rightarrow> double" where
  "d_mul NaN _ = NaN"
| "d_mul _ NaN = NaN"
| "d_mul (Fin x) (Fin y) = Fin (x * y)"
| "d_mul (Fin x) PInf = (if x = 0 then NaN else signed_inf x)"
| "d_mul (Fin x) NInf = (if x = 0 then NaN else signed_inf (- x))"
| "d_mul PInf (Fin y) = (if y = 0 then NaN else signed_inf y)"
| "d_mul NInf (Fin y) = (if y = 0 then NaN else signed_inf (- y))"
| "d_mul PInf PInf = PInf"
| "d_mul NInf NInf = PInf"
| "d_mul PInf NInf = NInf"
| "d_mul NInf PInf = NInf"

text \<open>
  Division. A finite non-zero number divided by zero is an infinity (zero is taken as
  \<open>+0\<close>), \<open>0 / 0\<close> and \<open>inf / inf\<close> are NaN, a finite number divided by an infinity is
  zero.
\<close>

fun d_div :: "double \<Rightarrow> double \<Rightarrow> double" where
  "d_div NaN _ = NaN"
| "d_div _ NaN = NaN"
| "d_div (Fin x) (Fin y) =
     (if y = 0 then (if x = 0 then NaN else signed_inf x) else Fin (x / y))"
| "d_div (Fin x) PInf = Fin 0"
| "d_div (Fin x) NInf = Fin 0"
| "d_div PInf (Fin y) = (if 0 \<le> y then PInf else NInf)"
| "d_div NInf (Fin y) = (if 0 \<le> y then NInf else PInf)"
| "d_div _ _ = NaN"

text \<open>\<^verbatim>\<open>std::min(a, b)\<close> is \<^verbatim>\<open>(b < a) ? b : a\<close>.\<close>

definition std_min :: "double \<Rightarrow> double \<Rightarrow> double" where
  "std_min a b = (if d_lt b a then b else a)"

text \<open>
  \<^verbatim>\<open>static_cast<int64_t>(d)\<close> truncates towards zero. The conversion is undefined
  when the truncated value is not an \<^verbatim>\<open>int64_t\<close> (also for an infinity or NaN); the
  model returns \<open>None\<close> there.
\<close>

definition trunc_toward_zero :: "real \<Rightarrow> int" where
  "trunc_toward_zero x = (if 0 \<le> x then \<lfloor>x\<rfloor> else \<lceil>x\<rceil>)"

fun cast_int64 :: "double \<Rightarrow> int option" where
  "cast_int64 (Fin x) =
     (if - (2 ^ 63) \<le> trunc_toward_zero x \<and> trunc_toward_zero x < 2 ^ 63
      then Some (trunc_toward_zero x) else None)"
| "cast_int64 _ = None"

text \<open>A \<^verbatim>\<open>uint32_t\<close> converts to \<^verbatim>\<open>double\<close> exactly.\<close>

definition of_uint32 :: "32 word \<Rightarrow> double" where
  "of_uint32 c = Fin (real (unat c))"

subsection \<open>The steady clock\<close>

text \<open>
  A \<^verbatim>\<open>steady_clock::time_point\<close> is a count of nanosecond ticks (the period of
  libstdc++ and libc++). \<^verbatim>\<open>duration<double>(a - b).count()\<close> is the difference in seconds;
  \<^verbatim>\<open>duration_cast<milliseconds>(a - b).count()\<close> divides the tick count by \<open>10^6\<close>,
  truncating towards zero.
\<close>

type_synonym time_point = int

definition seconds_between :: "time_point \<Rightarrow> time_point \<Rightarrow> double" where
  "seconds_between a b = Fin (real_of_int (a - b) / 1000000000)"

definition millis_between :: "time_point \<Rightarrow> time_point \<Rightarrow> int" where
  "millis_between a b =
     (if b \<le> a then (a - b) div 1000000 else - ((b - a) div 1000000))"

subsection \<open>class TokenBucket\<close>

record bucket =
  refill_rate :: double
  bucket_capacity :: double
  tokens :: double
  last_refill :: time_point

text \<open>The constructor; \<open>now\<close> is the clock reading of the member initialiser.\<close>

definition TokenBucket :: "double \<Rightarrow> double \<Rightarrow> time_point \<Rightarrow> bucket" where
  "TokenBucket rate capacity now =
     \<lparr>refill_rate = rate, bucket_capacity = capacity, tokens = capacity, last_refill = now\<rparr>"

definition refill :: "bucket \<Rightarrow> time_point \<Rightarrow> bucket" where
  "refill b now =
     (let elapsed_seconds = seconds_between now (last_refill b);
          new_tokens = d_mul elapsed_seconds (refill_rate b)
      in if d_gt new_tokens (Fin 0)
         then b\<lparr>tokens := std_min (bucket_capacity b) (d_add (tokens b) new_tokens),
                last_refill := now\<rparr>
         else b)"

text \<open>
  The result of \<^verbatim>\<open>allow\<close>: the returned \<^verbatim>\<open>bool\<close> and the two out-parameters.
\<close>

record allow_result =
  allowed :: bool
  retry_after_ms :: "int option"
  remaining :: double

definition allow :: "bucket \<Rightarrow> 32 word \<Rightarrow> time_point \<Rightarrow> allow_result \<times> bucket" where
  "allow b token_cost now =
     (let b1 = refill b now
      in if d_ge (tokens b1) (of_uint32 token_cost)
         then (let b2 = b1\<lparr>tokens := d_sub (tokens b1) (of_uint32 token_cost)\<rparr>
               in (\<lparr>allowed = True, retry_after_ms = Some 0, remaining = tokens b2\<rparr>, b2))
         else (let missing_tokens = d_sub (of_uint32 token_cost) (tokens b1);
                   seconds_to_wait = d_div missing_tokens (refill_rate b1)
               in (\<lparr>allowed = False,
                    retry_after_ms = cast_int64 (d_mul seconds_to_wait (Fin 1000)),
                    remaining = tokens b1\<rparr>, b1)))"

definition get_tokens :: "bucket \<Rightarrow> time_point \<Rightarrow> double \<times> bucket" where
  "get_tokens b now = (let b1 = refill b now in (tokens b1, b1))"

definition get_refill_rate :: "bucket \<Rightarrow> double" where
  "get_refill_rate b = refill_rate b"

definition get_capacity :: "bucket \<Rightarrow> double" where
  "get_capacity b = bucket_capacity b"

definition get_last_refill_ms :: "bucket \<Rightarrow> time_point \<Rightarrow> int" where
  "get_last_refill_ms b now = millis_between now (last_refill b)"

subsection \<open>class RateLimiterServiceImpl\<close>

text \<open>
  The member \<^verbatim>\<open>rate_limiters_\<close> maps a key to a shared pointer to its bucket. A handler
  fetches the pointer and mutates the bucket behind it; with one call at a time this is
  the map updated at that key.
\<close>

type_synonym registry = "string \<rightharpoonup> bucket"

text \<open>The constructor reads the clock once for each of the two pre-seeded buckets.\<close>

definition RateLimiterServiceImpl :: "time_point \<Rightarrow> time_point \<Rightarrow> registry" where
  "RateLimiterServiceImpl t1 t2 =
     (Map.empty(''flags_list'' \<mapsto> TokenBucket (Fin 10) (Fin 100) t1))
       (''flag_write'' \<mapsto> TokenBucket (Fin 5) (Fin 50) t2)"

text \<open>
  \<open>t_new\<close> is the clock reading of the constructor of the default bucket, used only when
  the key is absent.
\<close>

definition get_or_create_limiter :: "registry \<Rightarrow> string \<Rightarrow> time_point \<Rightarrow> bucket \<times> registry" where
  "get_or_create_limiter reg k t_new =
     (case reg k of
        Some b \<Rightarrow> (b, reg)
      | None \<Rightarrow> (let limiter = TokenBucket (Fin 20) (Fin 50) t_new
                 in (limiter, reg(k \<mapsto> limiter))))"

record AllowResponse =
  resp_allowed :: bool
  resp_retry_after_ms :: "int option"
  quota_remaining :: double

definition Allow ::
  "registry \<Rightarrow> string \<Rightarrow> 32 word \<Rightarrow> time_point \<Rightarrow> time_point \<Rightarrow> AllowResponse \<times> registry" where
  "Allow reg k request_cost t_new t_allow =
     (let token_cost = (if request_cost = 0 then 1 else request_cost);
          (limiter, reg1) = get_or_create_limiter reg k t_new;
          (r, limiter') = allow limiter token_cost t_allow
      in (\<lparr>resp_allowed = allowed r, resp_retry_after_ms = retry_after_ms r,
           quota_remaining = remaining r\<rparr>,
          reg1(k \<mapsto> limiter')))"

record StatusResponse =
  resp_key :: string
  tokens_remaining :: double
  resp_refill_rate :: double
  resp_bucket_capacity :: double
  last_refill_time_ms :: int

text \<open>
  \<^verbatim>\<open>Status\<close> reads the clock for the response in \<^verbatim>\<open>get_tokens\<close> (\<open>t_tokens\<close>) and in
  \<^verbatim>\<open>get_last_refill_ms\<close> (\<open>t_last\<close>), and once more in the \<^verbatim>\<open>get_tokens\<close> call of its
  log line (\<open>t_log\<close>), which refills the bucket again.
\<close>

definition Status ::
  "registry \<Rightarrow> string \<Rightarrow> time_point \<Rightarrow> time_point \<Rightarrow> time_point \<Rightarrow> time_point
     \<Rightarrow> StatusResponse \<times> registry" where
  "Status reg k t_new t_tokens t_last t_log =
     (let (limiter, reg1) = get_or_create_limiter reg k t_new;
          (tok, limiter1) = get_tokens limiter t_tokens;
          response = \<lparr>resp_key = k, tokens_remaining = tok,
                      resp_refill_rate = get_refill_rate limiter1,
                      resp_bucket_capacity = get_capacity limiter1,
                      last_refill_time_ms = get_last_refill_ms limiter1 t_last\<rparr>;
          (logged, limiter2) = get_tokens limiter1 t_log
      in (response, reg1(k \<mapsto> limiter2)))"

record ConfigureResponse =
  success :: bool
  message :: string

definition Configure ::
  "registry \<Rightarrow> string \<Rightarrow> double \<Rightarrow> double \<Rightarrow> time_point \<Rightarrow> ConfigureResponse \<times> registry" where
  "Configure reg k rate capacity t_new =
     (if d_le rate (Fin 0) \<or> d_le capacity (Fin 0)
      then (\<lparr>success = False,
             message = ''Invalid rate limiter configuration. Values must be positive.''\<rparr>, reg)
      else (\<lparr>success = True, message = ''Rate limiter configured successfully''\<rparr>,
            reg(k \<mapsto> TokenBucket rate capacity t_new)))"

section \<open>Notions used by the properties\<close>

text \<open>
  The retry-after value as the specification words it: the missing tokens over the refill
  rate, in milliseconds, rounded up. It is compared below with what \<^verbatim>\<open>allow\<close> computes.
\<close>

definition retry_after_ms_spec :: "real \<Rightarrow> real \<Rightarrow> real \<Rightarrow> int" where
  "retry_after_ms_spec t r c = \<lceil>(c - t) / r * 1000\<rceil>"

text \<open>The token count of a bucket lies between zero and the capacity.\<close>

definition tokens_ok :: "bucket \<Rightarrow> bool" where
  "tokens_ok b = (d_le (Fin 0) (tokens b) \<and> d_le (tokens b) (bucket_capacity b))"

text \<open>
  A client of one bucket issues calls of the member functions that touch the token
  count, each with the clock reading the call sees; \<open>run_calls\<close> is the bucket after a
  sequence of them.
\<close>

datatype bucket_call = Call_refill | Call_allow "32 word" | Call_get_tokens

fun call_bucket :: "bucket \<Rightarrow> bucket_call \<times> time_point \<Rightarrow> bucket" where
  "call_bucket b (Call_refill, now) = refill b now"
| "call_bucket b (Call_allow token_cost, now) = snd (allow b token_cost now)"
| "call_bucket b (Call_get_tokens, now) = snd (get_tokens b now)"

definition run_calls :: "bucket \<Rightarrow> (bucket_call \<times> time_point) list \<Rightarrow> bucket" where
  "run_calls b calls = foldl call_bucket b calls"

text \<open>Buckets, and registries of buckets, with positive parameters.\<close>

definition positive_bucket :: "bucket \<Rightarrow> bool" where
  "positive_bucket b = (d_gt (refill_rate b) (Fin 0) \<and> d_gt (bucket_capacity b) (Fin 0))"

definition positive_registry :: "registry \<Rightarrow> bool" where
  "positive_registry reg = (\<forall>k b. reg k = Some b \<longrightarrow> positive_bucket b)"

text \<open>
  Sample data. \<open>drained_registry\<close> is reached by configuring key \<open>k\<close> with rate 3 and
  capacity 1 and spending its only token, all at clock reading 0; \<open>slow_registry\<close> is
  reached in the same way with the refill rate \<open>2^-70\<close>.
\<close>

definition drained_registry :: registry where
  "drained_registry =
     snd (Allow (snd (Configure Map.empty ''k'' (Fin 3) (Fin 1) 0)) ''k'' 1 0 0)"

definition slow_registry :: registry where
  "slow_registry =
     snd (Allow (snd (Configure Map.empty ''k'' (Fin (1 / 2 ^ 70)) (Fin 1) 0)) ''k'' 1 0 0)"

definition sample_bucket :: bucket where
  "sample_bucket =
     \<lparr>refill_rate = Fin 5, bucket_capacity = Fin 50, tokens = Fin 2, last_refill = 0\<rparr>"

section \<open>Auxiliary lemmas\<close>

lemmas bucket_defs =
  TokenBucket_def refill_def allow_def get_tokens_def get_refill_rate_def get_capacity_def
  get_last_refill_ms_def seconds_between_def millis_between_def
  d_gt_def d_ge_def d_sub_def std_min_def of_uint32_def signed_inf_def
  trunc_toward_zero_def Let_def

lemmas service_defs =
  RateLimiterServiceImpl_def get_or_create_limiter_def Allow_def Status_def Configure_def

subsection \<open>Comparisons and arithmetic on double\<close>

lemma d_le_refl_iff: "d_le a a = (a \<noteq> NaN)"
  by (cases a) simp_all

lemma d_le_trans: "d_le a b \<Longrightarrow> d_le b c \<Longrightarrow> d_le a c"
  by (cases a; cases b; cases c) simp_all

lemma not_le_zero_positive: "\<not> d_le x (Fin 0) \<Longrightarrow> x \<noteq> NaN \<Longrightarrow> d_gt x (Fin 0)"
  by (cases x) (simp_all add: d_gt_def)

lemma std_min_add_bounds:
  assumes "d_le (Fin 0) t" "d_le t c" "d_gt n (Fin 0)"
  shows "d_le t (std_min c (d_add t n)) \<and> d_le (std_min c (d_add t n)) c"
  using assms
  by (cases t; cases c; cases n; simp add: std_min_def d_gt_def)

lemma std_min_full: "d_gt n (Fin 0) \<Longrightarrow> std_min c (d_add c n) = c"
  by (cases c; cases n) (simp_all add: std_min_def d_gt_def)

lemma d_sub_bounds:
  assumes "d_le t c" "d_le (Fin k) t" "0 \<le> k"
  shows "d_le (Fin 0) (d_sub t (Fin k)) \<and> d_le (d_sub t (Fin k)) c"
  using assms by (cases t; cases c; simp add: d_sub_def)

lemma d_sub_cost_bounds:
  assumes "d_le t c" "d_ge t (of_uint32 k)"
  shows "d_le (Fin 0) (d_sub t (of_uint32 k)) \<and> d_le (d_sub t (of_uint32 k)) c"
  using assms d_sub_bounds [of t c "real (unat k)"]
    of_nat_0_le_iff [of "unat k", where ?'a = real]
  by (simp add: d_ge_def of_uint32_def)

subsection \<open>refill\<close>

lemma refill_rate_refill [simp]: "refill_rate (refill b now) = refill_rate b"
  by (simp add: refill_def Let_def)

lemma bucket_capacity_refill [simp]: "bucket_capacity (refill b now) = bucket_capacity b"
  by (simp add: refill_def Let_def)

text \<open>A second refill at the same clock reading changes nothing.\<close>

lemma refill_idem: "refill (refill b now) now = refill b now"
  by (cases "refill_rate b")
     (auto simp: refill_def Let_def seconds_between_def d_gt_def signed_inf_def)

lemma tokens_ok_refill: "tokens_ok b \<Longrightarrow> tokens_ok (refill b now)"
  using std_min_add_bounds [of "tokens b" "bucket_capacity b"
      "d_mul (seconds_between now (last_refill b)) (refill_rate b)"]
    d_le_trans [of "Fin 0" "tokens b"]
  by (auto simp: tokens_ok_def refill_def Let_def)

lemma refill_increases: "tokens_ok b \<Longrightarrow> d_le (tokens b) (tokens (refill b now))"
  using std_min_add_bounds [of "tokens b" "bucket_capacity b"
      "d_mul (seconds_between now (last_refill b)) (refill_rate b)"]
  by (auto simp: tokens_ok_def refill_def Let_def d_le_refl_iff)

lemma refill_full_bucket:
  "tokens (refill (TokenBucket rate capacity t0) now) = capacity"
  by (simp add: refill_def TokenBucket_def Let_def std_min_full)

subsection \<open>allow\<close>

lemma bucket_capacity_allow [simp]:
  "bucket_capacity (snd (allow b c now)) = bucket_capacity b"
  by (simp add: allow_def Let_def)

lemma tokens_allow:
  "tokens (snd (allow b c now)) =
     (if allowed (fst (allow b c now)) then d_sub (tokens (refill b now)) (of_uint32 c)
      else tokens (refill b now))"
  by (simp add: allow_def Let_def)

lemma remaining_allow: "remaining (fst (allow b c now)) = tokens (snd (allow b c now))"
  by (simp add: allow_def Let_def)

lemma allow_rejected:
  "\<not> allowed (fst (allow b c now)) \<Longrightarrow>
     snd (allow b c now) = refill b now
     \<and> remaining (fst (allow b c now)) = tokens (refill b now)"
  by (simp add: allow_def Let_def split: if_splits)

lemma tokens_ok_allow: "tokens_ok b \<Longrightarrow> tokens_ok (snd (allow b c now))"
  using tokens_ok_refill [of b now]
    d_sub_cost_bounds [of "tokens (refill b now)" "bucket_capacity b" c]
  by (auto simp: allow_def Let_def tokens_ok_def)

subsection \<open>Sequences of calls on one bucket\<close>

lemma call_bucket_capacity: "bucket_capacity (call_bucket b call) = bucket_capacity b"
  by (cases "(b, call)" rule: call_bucket.cases) (simp_all add: get_tokens_def Let_def)

lemma call_bucket_tokens_ok: "tokens_ok b \<Longrightarrow> tokens_ok (call_bucket b call)"
  by (cases "(b, call)" rule: call_bucket.cases)
     (simp_all add: get_tokens_def Let_def tokens_ok_refill tokens_ok_allow)

lemma run_calls_capacity: "bucket_capacity (run_calls b calls) = bucket_capacity b"
  unfolding run_calls_def
  by (induction calls arbitrary: b) (simp_all add: call_bucket_capacity)

lemma run_calls_tokens_ok: "tokens_ok b \<Longrightarrow> tokens_ok (run_calls b calls)"
  unfolding run_calls_def
  by (induction calls arbitrary: b) (simp_all add: call_bucket_tokens_ok)

lemma tokens_ok_TokenBucket:
  "d_le (Fin 0) capacity \<Longrightarrow> tokens_ok (TokenBucket rate capacity t0)"
  by (cases capacity) (simp_all add: tokens_ok_def TokenBucket_def)

text \<open>
  A bucket constructed with a capacity that is not negative (and not NaN) keeps its token
  count between zero and the capacity through every sequence of calls.
\<close>

lemma TokenBucket_run_calls_tokens_ok:
  "d_le (Fin 0) capacity \<Longrightarrow> tokens_ok (run_calls (TokenBucket rate capacity t0) calls)"
  by (simp add: run_calls_tokens_ok tokens_ok_TokenBucket)

subsection \<open>The registry\<close>

lemma get_or_create_limiter_present:
  "reg k = Some b \<Longrightarrow> get_or_create_limiter reg k t_new = (b, reg)"
  by (simp add: get_or_create_limiter_def)

lemma Allow_registry:
  "snd (Allow reg k cost t_new t_allow) =
     (snd (get_or_create_limiter reg k t_new))
       (k \<mapsto> snd (allow (fst (get_or_create_limiter reg k t_new))
                      (if cost = 0 then 1 else cost) t_allow))"
  by (simp add: Allow_def Let_def split: prod.splits)

lemma Allow_response:
  "fst (Allow reg k cost t_new t_allow) =
     (let r = fst (allow (fst (get_or_create_limiter reg k t_new))
                      (if cost = 0 then 1 else cost) t_allow)
      in \<lparr>resp_allowed = allowed r, resp_retry_after_ms = retry_after_ms r,
          quota_remaining = remaining r\<rparr>)"
  by (simp add: Allow_def Let_def split: prod.splits)

lemma Status_tokens_remaining:
  "reg k = Some b \<Longrightarrow>
     tokens_remaining (fst (Status reg k t_new t_tokens t_last t_log))
       = tokens (refill b t_tokens)"
  by (simp add: Status_def get_or_create_limiter_present get_tokens_def Let_def
      split: prod.splits)

lemma drained_registry_k:
  "drained_registry ''k'' =
     Some \<lparr>refill_rate = Fin 3, bucket_capacity = Fin 1, tokens = Fin 0, last_refill = 0\<rparr>"
  by (simp add: drained_registry_def service_defs bucket_defs)

lemma slow_registry_k:
  "slow_registry ''k'' =
     Some \<lparr>refill_rate = Fin (1 / 2 ^ 70), bucket_capacity = Fin 1, tokens = Fin 0,
           last_refill = 0\<rparr>"
  by (simp add: slow_registry_def service_defs bucket_defs)

subsection \<open>Positive parameters\<close>

text \<open>
  The pre-seeded buckets and the default bucket have positive parameters, and the
  handlers keep a registry of such buckets as long as \<^verbatim>\<open>Configure\<close> is not given NaN.
\<close>

lemma positive_bucket_refill [simp]: "positive_bucket (refill b now) = positive_bucket b"
  by (simp add: positive_bucket_def)

lemma positive_bucket_allow [simp]:
  "positive_bucket (snd (allow b c now)) = positive_bucket b"
  by (simp add: positive_bucket_def allow_def Let_def)

lemma positive_bucket_default [simp]: "positive_bucket (TokenBucket (Fin 20) (Fin 50) t)"
  by (simp add: positive_bucket_def TokenBucket_def d_gt_def)

lemma positive_registry_upd:
  "positive_registry reg \<Longrightarrow> positive_bucket b \<Longrightarrow> positive_registry (reg(k \<mapsto> b))"
  by (simp add: positive_registry_def)

lemma positive_get_or_create_limiter:
  assumes "positive_registry reg"
  shows "positive_bucket (fst (get_or_create_limiter reg k t))
     \<and> positive_registry (snd (get_or_create_limiter reg k t))"
  using assms
  by (auto simp: get_or_create_limiter_def Let_def positive_registry_def
      split: option.splits)

lemma positive_registry_init: "positive_registry (RateLimiterServiceImpl t1 t2)"
  by (simp add: positive_registry_def RateLimiterServiceImpl_def positive_bucket_def
      TokenBucket_def d_gt_def)

lemma positive_registry_Allow:
  assumes "positive_registry reg"
  shows "positive_registry (snd (Allow reg k cost t_new t_allow))"
  using positive_get_or_create_limiter [OF assms, of k t_new]
  by (simp add: Allow_registry positive_registry_upd)

lemma positive_registry_Status:
  assumes "positive_registry reg"
  shows "positive_registry (snd (Status reg k t_new t_tokens t_last t_log))"
  using positive_get_or_create_limiter [OF assms, of k t_new]
  by (auto simp: Status_def get_tokens_def Let_def split: prod.splits
      intro!: positive_registry_upd)

lemma positive_registry_Configure:
  assumes "positive_registry reg" and "rate \<noteq> NaN" and "capacity \<noteq> NaN"
  shows "positive_registry (snd (Configure reg k rate capacity t_new))"
  using assms
  by (auto simp: Configure_def positive_bucket_def TokenBucket_def not_le_zero_positive
      intro!: positive_registry_upd)

section \<open>Properties\<close>

text \<open>
  C1. The retry-after value of a rejected request is the wait in milliseconds cut off to
  an integer by the cast; it is not rounded up. On the drained bucket of key \<open>k\<close>
  (rate 3, no tokens) a request of cost 1 is rejected with 333 ms, where the rounded-up
  value is 334 ms, and a retry exactly 333 ms later is rejected again. With rate 5,
  capacity 50 and 2 tokens a request of cost 10 is rejected with 1600 ms. With the refill
  rate \<open>2^-70\<close> the wait in milliseconds is no \<^verbatim>\<open>int64_t\<close> and the cast is undefined.
\<close>

theorem retry_after_not_rounded_up:
  "fst (Allow drained_registry ''k'' 1 0 0)
     = \<lparr>resp_allowed = False, resp_retry_after_ms = Some 333, quota_remaining = Fin 0\<rparr>
   \<and> retry_after_ms_spec 0 3 1 = 334
   \<and> resp_allowed (fst (Allow drained_registry ''k'' 1 0 333000000)) = False
   \<and> allow sample_bucket 10 0
     = (\<lparr>allowed = False, retry_after_ms = Some 1600, remaining = Fin 2\<rparr>, sample_bucket)
   \<and> fst (Allow slow_registry ''k'' 1 0 0)
     = \<lparr>resp_allowed = False, resp_retry_after_ms = None, quota_remaining = Fin 0\<rparr>"
proof -
  have "fst (Allow drained_registry ''k'' 1 0 0)
     = \<lparr>resp_allowed = False, resp_retry_after_ms = Some 333, quota_remaining = Fin 0\<rparr>"
    by (simp add: service_defs bucket_defs drained_registry_k)
  moreover have "retry_after_ms_spec 0 3 1 = 334"
    by (simp add: retry_after_ms_spec_def)
  moreover have "resp_allowed (fst (Allow drained_registry ''k'' 1 0 333000000)) = False"
    by (simp add: service_defs bucket_defs drained_registry_k)
  moreover have "allow sample_bucket 10 0
     = (\<lparr>allowed = False, retry_after_ms = Some 1600, remaining = Fin 2\<rparr>, sample_bucket)"
    by (simp add: sample_bucket_def bucket_defs)
  moreover have "fst (Allow slow_registry ''k'' 1 0 0)
     = \<lparr>resp_allowed = False, resp_retry_after_ms = None, quota_remaining = Fin 0\<rparr>"
    by (simp add: service_defs bucket_defs slow_registry_k)
  ultimately show ?thesis by simp
qed

text \<open>
  C2. \<^verbatim>\<open>Configure\<close> accepts NaN as the capacity, since the comparison \<open>NaN \<le> 0\<close> of its
  validation is false. The bucket it stores holds NaN tokens, so the token count is
  neither at least zero nor at most the capacity; \<^verbatim>\<open>Status\<close> reports NaN tokens and every
  \<^verbatim>\<open>Allow\<close> on the key is rejected with NaN remaining. (For a capacity that compares
  \<open>\<ge> 0\<close> the count stays within zero and the capacity: lemma
  \<open>TokenBucket_run_calls_tokens_ok\<close> above.)
\<close>

theorem Configure_NaN_capacity_breaks_tokens_ok:
  "Configure (RateLimiterServiceImpl 0 0) ''k'' (Fin 5) NaN 1
     = (\<lparr>success = True, message = ''Rate limiter configured successfully''\<rparr>,
        (RateLimiterServiceImpl 0 0)(''k'' \<mapsto>
          \<lparr>refill_rate = Fin 5, bucket_capacity = NaN, tokens = NaN, last_refill = 1\<rparr>))
   \<and> map_option tokens_ok
         (snd (Configure (RateLimiterServiceImpl 0 0) ''k'' (Fin 5) NaN 1) ''k'') = Some False
   \<and> d_le (Fin 0) NaN = False \<and> d_le NaN NaN = False
   \<and> tokens_remaining
         (fst (Status (snd (Configure (RateLimiterServiceImpl 0 0) ''k'' (Fin 5) NaN 1)) ''k''
            2 2 2 2)) = NaN
   \<and> fst (Allow (snd (Configure (RateLimiterServiceImpl 0 0) ''k'' (Fin 5) NaN 1)) ''k'' 1 2 2)
       = \<lparr>resp_allowed = False, resp_retry_after_ms = None, quota_remaining = NaN\<rparr>"
proof -
  have c: "Configure (RateLimiterServiceImpl 0 0) ''k'' (Fin 5) NaN 1
     = (\<lparr>success = True, message = ''Rate limiter configured successfully''\<rparr>,
        (RateLimiterServiceImpl 0 0)(''k'' \<mapsto>
          \<lparr>refill_rate = Fin 5, bucket_capacity = NaN, tokens = NaN, last_refill = 1\<rparr>))"
    by (simp add: Configure_def TokenBucket_def)
  have "map_option tokens_ok
      (snd (Configure (RateLimiterServiceImpl 0 0) ''k'' (Fin 5) NaN 1) ''k'') = Some False"
    unfolding c by (simp add: tokens_ok_def)
  moreover have "tokens_remaining
      (fst (Status (snd (Configure (RateLimiterServiceImpl 0 0) ''k'' (Fin 5) NaN 1)) ''k''
         2 2 2 2)) = NaN"
    unfolding c by (simp add: Status_def get_or_create_limiter_def bucket_defs)
  moreover have
    "fst (Allow (snd (Configure (RateLimiterServiceImpl 0 0) ''k'' (Fin 5) NaN 1)) ''k'' 1 2 2)
       = \<lparr>resp_allowed = False, resp_retry_after_ms = None, quota_remaining = NaN\<rparr>"
    unfolding c by (simp add: Allow_def get_or_create_limiter_def bucket_defs)
  ultimately show ?thesis
    using c by simp
qed

text \<open>
  C3. \<^verbatim>\<open>Configure\<close> answers \<open>success = false\<close> exactly when the refill rate or the
  capacity compares \<open>\<le> 0\<close>; it then carries the validation message and returns the
  registry unchanged.
\<close>

theorem Configure_rejects_without_mutation:
  "(\<not> success (fst (Configure reg k rate capacity t_new)))
      = (d_le rate (Fin 0) \<or> d_le capacity (Fin 0))
   \<and> (\<not> success (fst (Configure reg k rate capacity t_new)) \<longrightarrow>
        snd (Configure reg k rate capacity t_new) = reg
        \<and> message (fst (Configure reg k rate capacity t_new))
            = ''Invalid rate limiter configuration. Values must be positive.'')"
  by (simp add: Configure_def)

theorem Configure_rejects_without_mutation_witness:
  "success (fst (Configure drained_registry ''k'' (Fin 0) (Fin 10) 5)) = False
   \<and> snd (Configure drained_registry ''k'' (Fin 0) (Fin 10) 5) = drained_registry
   \<and> success (fst (Configure drained_registry ''k'' (Fin 1) (Fin (- 1)) 5)) = False
   \<and> snd (Configure drained_registry ''k'' (Fin 1) (Fin (- 1)) 5) = drained_registry
   \<and> success (fst (Configure drained_registry ''k'' (Fin 1) (Fin 10) 5)) = True"
  using Configure_rejects_without_mutation [of drained_registry "''k''" "Fin 0" "Fin 10" 5]
    Configure_rejects_without_mutation [of drained_registry "''k''" "Fin 1" "Fin (- 1)" 5]
    Configure_rejects_without_mutation [of drained_registry "''k''" "Fin 1" "Fin 10" 5]
  by simp

text \<open>
  C5. A rejected \<^verbatim>\<open>Allow\<close> request does nothing to the bucket of its key beyond the
  refill step: the quota it reports is the refilled token count, the bucket stored
  afterwards is the refilled bucket, and a \<^verbatim>\<open>Status\<close> request for the key whose
  \<^verbatim>\<open>get_tokens\<close> sees the same clock reading reports the same token count.
\<close>

theorem rejected_Allow_preserves_tokens:
  assumes "\<not> resp_allowed (fst (Allow reg k cost t_new t_allow))"
  shows "quota_remaining (fst (Allow reg k cost t_new t_allow))
           = tokens (refill (fst (get_or_create_limiter reg k t_new)) t_allow)
     \<and> snd (Allow reg k cost t_new t_allow) k
           = Some (refill (fst (get_or_create_limiter reg k t_new)) t_allow)
     \<and> tokens_remaining
         (fst (Status (snd (Allow reg k cost t_new t_allow)) k t_new' t_allow t_last t_log))
           = quota_remaining (fst (Allow reg k cost t_new t_allow))"
proof -
  let ?b = "fst (get_or_create_limiter reg k t_new)"
  let ?c = "if cost = 0 then 1 else cost"
  have rej: "\<not> allowed (fst (allow ?b ?c t_allow))"
    using assms by (simp add: Allow_response Let_def)
  note r = allow_rejected [OF rej]
  have q: "quota_remaining (fst (Allow reg k cost t_new t_allow)) = tokens (refill ?b t_allow)"
    using r by (simp add: Allow_response Let_def)
  have s: "snd (Allow reg k cost t_new t_allow) k = Some (refill ?b t_allow)"
    using r by (simp add: Allow_registry)
  show ?thesis
    using q s
      Status_tokens_remaining [of "snd (Allow reg k cost t_new t_allow)" k
        "refill ?b t_allow" t_new' t_allow t_last t_log]
    by (simp add: refill_idem)
qed

theorem rejected_Allow_preserves_tokens_witness:
  "fst (Allow drained_registry ''k'' 1 0 150000000)
     = \<lparr>resp_allowed = False, resp_retry_after_ms = Some 183, quota_remaining = Fin (9 / 20)\<rparr>
   \<and> tokens_remaining (fst (Status (snd (Allow drained_registry ''k'' 1 0 150000000)) ''k''
         150000000 150000000 150000000 150000000)) = Fin (9 / 20)"
proof -
  have a: "fst (Allow drained_registry ''k'' 1 0 150000000)
     = \<lparr>resp_allowed = False, resp_retry_after_ms = Some 183, quota_remaining = Fin (9 / 20)\<rparr>"
    by (simp add: service_defs bucket_defs drained_registry_k)
  then have "\<not> resp_allowed (fst (Allow drained_registry ''k'' 1 0 150000000))" by simp
  from rejected_Allow_preserves_tokens [OF this] a show ?thesis by simp
qed

text \<open>
  C6. After a successful \<^verbatim>\<open>Configure\<close> of a key, a \<^verbatim>\<open>Status\<close> request for that key
  reports the configured capacity as the tokens remaining, together with the configured
  refill rate and capacity, whatever the registry held for the key before and whatever the
  clock readings of the \<^verbatim>\<open>Status\<close> request.
\<close>

theorem Configure_then_Status_full:
  assumes "success (fst (Configure reg k rate capacity t0))"
  shows "tokens_remaining
         (fst (Status (snd (Configure reg k rate capacity t0)) k t_new t_tokens t_last t_log))
           = capacity
     \<and> resp_refill_rate
         (fst (Status (snd (Configure reg k rate capacity t0)) k t_new t_tokens t_last t_log))
           = rate
     \<and> resp_bucket_capacity
         (fst (Status (snd (Configure reg k rate capacity t0)) k t_new t_tokens t_last t_log))
           = capacity
     \<and> resp_key
         (fst (Status (snd (Configure reg k rate capacity t0)) k t_new t_tokens t_last t_log))
           = k"
proof -
  have stored: "snd (Configure reg k rate capacity t0) k = Some (TokenBucket rate capacity t0)"
    using assms by (simp add: Configure_def split: if_splits)
  have "fst (Status (snd (Configure reg k rate capacity t0)) k t_new t_tokens t_last t_log)
      = \<lparr>resp_key = k,
         tokens_remaining = tokens (refill (TokenBucket rate capacity t0) t_tokens),
         resp_refill_rate = refill_rate (refill (TokenBucket rate capacity t0) t_tokens),
         resp_bucket_capacity = bucket_capacity (refill (TokenBucket rate capacity t0) t_tokens),
         last_refill_time_ms =
           millis_between t_last (last_refill (refill (TokenBucket rate capacity t0) t_tokens))\<rparr>"
    using get_or_create_limiter_present
      [of "snd (Configure reg k rate capacity t0)" k "TokenBucket rate capacity t0" t_new] stored
    by (simp add: Status_def get_tokens_def get_refill_rate_def get_capacity_def
        get_last_refill_ms_def Let_def split: prod.splits)
  then show ?thesis
    by (simp add: refill_full_bucket) (simp add: TokenBucket_def)
qed

theorem Configure_then_Status_full_witness:
  "fst (Status (snd (Configure drained_registry ''k'' (Fin 7) (Fin 30) 10)) ''k'' 11 12 13 14)
     = \<lparr>resp_key = ''k'', tokens_remaining = Fin 30, resp_refill_rate = Fin 7,
        resp_bucket_capacity = Fin 30, last_refill_time_ms = 0\<rparr>"
proof -
  have "success (fst (Configure drained_registry ''k'' (Fin 7) (Fin 30) 10))"
    by (simp add: Configure_def)
  with Configure_then_Status_full [of drained_registry "''k''" "Fin 7" "Fin 30" 10 11 12 13 14]
  have "tokens_remaining
      (fst (Status (snd (Configure drained_registry ''k'' (Fin 7) (Fin 30) 10)) ''k'' 11 12 13 14))
        = Fin 30"
    by simp
  then show ?thesis
    by (simp add: service_defs bucket_defs)
qed

text \<open>
  C7. An \<^verbatim>\<open>Allow\<close> request of cost 1 for a key the registry does not hold creates the
  default bucket (rate 20, capacity 50, full), is allowed with retry-after 0, and reports
  49 tokens remaining; the registry then holds that bucket with 49 tokens.
\<close>

theorem Allow_fresh_key_default_bucket:
  assumes "reg k = None"
  shows "Allow reg k 1 t_new t_allow =
     (\<lparr>resp_allowed = True, resp_retry_after_ms = Some 0, quota_remaining = Fin 49\<rparr>,
      reg(k \<mapsto> \<lparr>refill_rate = Fin 20, bucket_capacity = Fin 50, tokens = Fin 49,
                last_refill = (if t_new < t_allow then t_allow else t_new)\<rparr>))"
  using assms
  by (simp add: Allow_def get_or_create_limiter_def bucket_defs)

theorem Allow_fresh_key_default_bucket_witness:
  "Allow (RateLimiterServiceImpl 0 0) ''never_seen'' 1 5 7 =
     (\<lparr>resp_allowed = True, resp_retry_after_ms = Some 0, quota_remaining = Fin 49\<rparr>,
      (RateLimiterServiceImpl 0 0)(''never_seen'' \<mapsto>
         \<lparr>refill_rate = Fin 20, bucket_capacity = Fin 50, tokens = Fin 49, last_refill = 7\<rparr>))"
proof -
  have "RateLimiterServiceImpl 0 0 ''never_seen'' = None"
    by (simp add: RateLimiterServiceImpl_def)
  with Allow_fresh_key_default_bucket [of "RateLimiterServiceImpl 0 0" "''never_seen''" 5 7]
  show ?thesis by simp
qed

text \<open>
  C8. A decision request with cost 0 is answered exactly as the same request with cost 1:
  the response and the resulting registry are equal.
\<close>

theorem Allow_cost_zero_is_one:
  "Allow reg k 0 t_new t_allow = Allow reg k 1 t_new t_allow"
  by (simp add: Allow_def)

theorem Allow_cost_zero_is_one_witness:
  "Allow (RateLimiterServiceImpl 0 0) ''flag_write'' 0 5 7
     = Allow (RateLimiterServiceImpl 0 0) ''flag_write'' 1 5 7"
  by (rule Allow_cost_zero_is_one)

text \<open>
  C10. The validation of \<^verbatim>\<open>Configure\<close> compares with \<open>\<le> 0\<close>, and every comparison with
  NaN is false: a request whose refill rate is NaN is accepted and stores a bucket whose
  refill rate is not greater than zero. A later rejected \<^verbatim>\<open>Allow\<close> on that bucket divides
  by NaN and converts NaN to an integer, which is undefined. (For parameters other than
  NaN the lemmas on \<open>positive_registry\<close> above show that only buckets with positive
  parameters are stored.)
\<close>

theorem Configure_accepts_NaN:
  "Configure (RateLimiterServiceImpl 0 0) ''k'' NaN (Fin 50) 1
     = (\<lparr>success = True, message = ''Rate limiter configured successfully''\<rparr>,
        (RateLimiterServiceImpl 0 0)(''k'' \<mapsto>
          \<lparr>refill_rate = NaN, bucket_capacity = Fin 50, tokens = Fin 50, last_refill = 1\<rparr>))
   \<and> d_gt NaN (Fin 0) = False
   \<and> map_option positive_bucket
         (snd (Configure (RateLimiterServiceImpl 0 0) ''k'' NaN (Fin 50) 1) ''k'') = Some False
   \<and> fst (Allow (snd (Configure (RateLimiterServiceImpl 0 0) ''k'' NaN (Fin 50) 1)) ''k'' 51 2 2)
       = \<lparr>resp_allowed = False, resp_retry_after_ms = None, quota_remaining = Fin 50\<rparr>"
proof -
  have c: "Configure (RateLimiterServiceImpl 0 0) ''k'' NaN (Fin 50) 1
     = (\<lparr>success = True, message = ''Rate limiter configured successfully''\<rparr>,
        (RateLimiterServiceImpl 0 0)(''k'' \<mapsto>
          \<lparr>refill_rate = NaN, bucket_capacity = Fin 50, tokens = Fin 50, last_refill = 1\<rparr>))"
    by (simp add: Configure_def TokenBucket_def)
  have "map_option positive_bucket
      (snd (Configure (RateLimiterServiceImpl 0 0) ''k'' NaN (Fin 50) 1) ''k'') = Some False"
    unfolding c by (simp add: positive_bucket_def d_gt_def)
  moreover have "fst (Allow (snd (Configure (RateLimiterServiceImpl 0 0) ''k'' NaN (Fin 50) 1)) ''k'' 51 2 2)
       = \<lparr>resp_allowed = False, resp_retry_after_ms = None, quota_remaining = Fin 50\<rparr>"
    by (simp add: service_defs bucket_defs)
  ultimately show ?thesis
    using c by (simp add: d_gt_def)
qed

end
